theory Spec2Isabelle
  imports Complex_Main "HOL-Library.Log_Nat"
begin

section \<open>The scroll wheel (\<open>Wheel\<close> in persian-wheel-picker.tsx)\<close>

subsection \<open>Data\<close>

text \<open>
  \<open>interface WheelItem { value: number; label: string }\<close>. The values the picker puts
  into its wheels are whole numbers (days, months, years), so \<open>value\<close> is an \<open>int\<close>.
\<close>

record WheelItem =
  "value" :: int
  label :: string

text \<open>
  The three measurements of the scroll container that the handlers read.
  \<open>el.scrollTop\<close> is a double and may be fractional: it is a real, meant to be one that a
  double can hold. \<open>el.scrollHeight\<close> and \<open>el.clientHeight\<close> are whole numbers of pixels
  (they are of type \<open>long\<close> in the DOM).
\<close>

record Element =
  scrollTop :: real
  scrollHeight :: int
  clientHeight :: int

subsection \<open>Arithmetic\<close>

text \<open>
  JavaScript numbers are IEEE 754 doubles: every division, multiplication and subtraction
  gives the double nearest to the exact result, a tie going to the one with the even
  significand. \<open>to_double\<close> is that rounding: 53 significant bits, with gradual underflow
  below \<open>2 ^ -1022\<close>. (Results beyond the largest double are not turned into
  \<open>Infinity\<close>; the handlers compute one only as an index, which is then clamped to the
  last item either way.)

  \<open>floor_log2 x\<close> is the integral part of the binary logarithm of a positive \<open>x\<close>, found
  from the number of bits of \<open>floor x\<close>, or of \<open>ceiling (1 / x) - 1\<close> for \<open>x < 1\<close>.
\<close>

definition floor_log2 :: "real \<Rightarrow> int" where
  "floor_log2 x =
     (if 1 \<le> x then bitlen \<lfloor>x\<rfloor> - 1
      else - bitlen (\<lceil>1 / x\<rceil> - 1))"

definition pow2 :: "int \<Rightarrow> real" where
  "pow2 e = (if 0 \<le> e then 2 ^ nat e else 1 / 2 ^ nat (- e))"

definition round_half_even :: "real \<Rightarrow> int" where
  "round_half_even y =
     (let f = \<lfloor>y\<rfloor>; r = y - of_int f
      in if r < 1 / 2 then f else if 1 / 2 < r then f + 1 else if even f then f else f + 1)"

definition to_double :: "real \<Rightarrow> real" where
  "to_double x =
     (if x = 0 then 0
      else (let q = pow2 (max (floor_log2 \<bar>x\<bar>) (- 1022) - 52)
            in of_int (round_half_even (x / q)) * q))"

text \<open>\<open>a / b\<close>, \<open>a * b\<close> and \<open>a - b\<close> on doubles.\<close>

definition js_div :: "real \<Rightarrow> real \<Rightarrow> real" where
  "js_div a b = to_double (a / b)"

definition js_mul :: "real \<Rightarrow> real \<Rightarrow> real" where
  "js_mul a b = to_double (a * b)"

definition js_sub :: "real \<Rightarrow> real \<Rightarrow> real" where
  "js_sub a b = to_double (a - b)"

subsection \<open>Calls, errors and helpers\<close>

text \<open>
  What a handler does to the outside: it calls the \<open>onChange\<close> prop (publishing a value to
  the parent) or it calls \<open>el.scrollTo({ top, behavior })\<close> on the container.
\<close>

datatype ScrollBehavior = Smooth | Instant

datatype Call = OnChange int | ScrollTo real ScrollBehavior

text \<open>
  Reading \<open>.value\<close> of \<open>undefined\<close> throws a \<open>TypeError\<close>; it is the only exception the
  handlers can raise.
\<close>

datatype Error = TypeError

text \<open>\<open>const ITEM_HEIGHT = 44; // px per row\<close>\<close>

definition ITEM_HEIGHT :: real where
  "ITEM_HEIGHT = 44"

text \<open>\<open>const clamp = (v, min, max) => Math.max(min, Math.min(v, max))\<close>\<close>

definition clamp :: "int \<Rightarrow> int \<Rightarrow> int \<Rightarrow> int" where
  "clamp v mn mx = max mn (min v mx)"

text \<open>
  \<open>Math.round\<close>: the integer closest to the argument, a tie going to the larger one
  (ECMAScript, Math.round), that is \<open>floor (x + 1/2)\<close>, taken exactly.
\<close>

definition Math_round :: "real \<Rightarrow> int" where
  "Math_round x = \<lfloor>x + 1 / 2\<rfloor>"

text \<open>\<open>items[index]\<close> for an integral index: \<open>undefined\<close> (here \<open>None\<close>) out of range.\<close>

definition item_at :: "WheelItem list \<Rightarrow> int \<Rightarrow> WheelItem option" where
  "item_at items index =
     (if 0 \<le> index \<and> index < int (length items) then Some (items ! nat index) else None)"

text \<open>
  \<open>items.findIndex((i) => i.value === v)\<close>: the index of the first item with that value,
  \<open>-1\<close> when there is none.
\<close>

fun findIndex_from :: "int \<Rightarrow> WheelItem list \<Rightarrow> int \<Rightarrow> int" where
  "findIndex_from k [] v = - 1"
| "findIndex_from k (i # rest) v =
     (if WheelItem.value i = v then k else findIndex_from (k + 1) rest v)"

definition findIndex :: "WheelItem list \<Rightarrow> int \<Rightarrow> int" where
  "findIndex items v = findIndex_from 0 items v"

subsection \<open>Handlers\<close>

text \<open>
  The handlers are closures over the props \<open>centered\<close>, \<open>items\<close> and \<open>value\<close> of the render
  that created them; these are their first arguments here (the \<open>value\<close> prop is written
  \<open>cur_value\<close>, since \<open>value\<close> names the field of an item). \<open>container\<close> is
  \<open>containerRef.current\<close>, \<open>None\<close> for \<open>null\<close>.
\<close>

text \<open>\<open>scrollToIndex(newIndex, behavior)\<close>: no container, nothing happens.\<close>

definition scrollToIndex ::
  "bool \<Rightarrow> WheelItem list \<Rightarrow> Element option \<Rightarrow> int \<Rightarrow> ScrollBehavior \<Rightarrow> Call list" where
  "scrollToIndex centered items container newIndex behavior =
     (case container of
        None \<Rightarrow> []
      | Some el \<Rightarrow>
          (let target =
             (if centered then js_mul (real_of_int newIndex) ITEM_HEIGHT
              else if length items > 1
                then js_mul (js_div (real_of_int newIndex) (real (length items) - 1))
                       (real_of_int (scrollHeight el - clientHeight el))
                else 0)
           in [ScrollTo target behavior]))"

text \<open>
  The index that \<open>snapToClosest(el)\<close> computes (its lines up to
  \<open>index = clamp(index, 0, items.length - 1)\<close>).
\<close>

definition snap_index :: "bool \<Rightarrow> WheelItem list \<Rightarrow> Element \<Rightarrow> int" where
  "snap_index centered items el =
     (let pos = scrollTop el;
          maxScrollTop = scrollHeight el - clientHeight el;
          index =
            (if centered then Math_round (js_div pos ITEM_HEIGHT)
             else if maxScrollTop \<le> 0 then 0
             else Math_round (js_mul (js_div pos (real_of_int maxScrollTop))
                                (real (length items) - 1)))
      in clamp index 0 (int (length items) - 1))"

text \<open>
  \<open>snapToClosest(el)\<close>: \<open>items[index].value\<close> throws when \<open>items[index]\<close> is undefined;
  otherwise the value is published if it is not the current one, and the wheel is scrolled
  to the index.
\<close>

definition snapToClosest ::
  "bool \<Rightarrow> WheelItem list \<Rightarrow> int \<Rightarrow> Element option \<Rightarrow> Element \<Rightarrow> Error + Call list" where
  "snapToClosest centered items cur_value container el =
     (let index = snap_index centered items el in
      case item_at items index of
        None \<Rightarrow> Inl TypeError
      | Some it \<Rightarrow>
          (let newValue = WheelItem.value it in
           Inr ((if newValue \<noteq> cur_value then [OnChange newValue] else [])
                @ scrollToIndex centered items container index Smooth)))"

text \<open>
  The callback that \<open>handleScroll\<close> hands to \<open>requestAnimationFrame\<close>: the same index
  computation, written out a second time in the source, and the publication only.
\<close>

definition frame_index :: "bool \<Rightarrow> WheelItem list \<Rightarrow> Element \<Rightarrow> int" where
  "frame_index centered items el =
     (let pos = scrollTop el;
          maxScrollTop = scrollHeight el - clientHeight el;
          index =
            (if centered then Math_round (js_div pos ITEM_HEIGHT)
             else if maxScrollTop \<le> 0 then 0
             else Math_round (js_mul (js_div pos (real_of_int maxScrollTop))
                                (real (length items) - 1)))
      in clamp index 0 (int (length items) - 1))"

definition frameCallback ::
  "bool \<Rightarrow> WheelItem list \<Rightarrow> int \<Rightarrow> Element \<Rightarrow> Error + Call list" where
  "frameCallback centered items cur_value el =
     (let index = frame_index centered items el in
      case item_at items index of
        None \<Rightarrow> Inl TypeError
      | Some it \<Rightarrow>
          (let newValue = WheelItem.value it in
           Inr (if newValue \<noteq> cur_value then [OnChange newValue] else [])))"

text \<open>
  The \<open>onClick\<close> of an item. \<open>findIndex\<close> is called on the item's own value; the exception
  of \<open>items.length - 1 = 0\<close> in the proportional offset is the source's.
\<close>

definition onClick ::
  "bool \<Rightarrow> WheelItem list \<Rightarrow> int \<Rightarrow> Element option \<Rightarrow> WheelItem \<Rightarrow> Call list" where
  "onClick centered items cur_value container item =
     (let ix = findIndex items (WheelItem.value item) in
      (if WheelItem.value item \<noteq> cur_value then [OnChange (WheelItem.value item)] else [])
      @ (case container of
           None \<Rightarrow> []
         | Some el \<Rightarrow>
             (let target =
                (if centered then js_mul (real_of_int ix) ITEM_HEIGHT
                 else if length items > 1
                   then js_mul (js_div (real_of_int ix) (real (length items) - 1))
                          (real_of_int (scrollHeight el - clientHeight el))
                   else 0)
              in if \<bar>js_sub (scrollTop el) target\<bar> > 1
                 then scrollToIndex centered items container ix Smooth
                 else [])))"

subsection \<open>The specification's formulas\<close>




definition spec_exact_offset :: "bool \<Rightarrow> real \<Rightarrow> nat \<Rightarrow> int \<Rightarrow> int \<Rightarrow> real" where
  "spec_exact_offset centered itemHeight itemCount maxScrollOffset index =
     (if centered then js_mul (real_of_int index) itemHeight
      else if itemCount = 1 then 0
      else js_mul (js_div (real_of_int index) (real itemCount - 1))
             (real_of_int maxScrollOffset))"



subsection \<open>The wheel as a state machine\<close>

text \<open>
  The props a render of \<open>Wheel\<close> receives, as far as the handlers use them (\<open>onChange\<close> is
  the \<open>OnChange\<close> call; \<open>ariaLabel\<close> and \<open>visibleRows\<close> only reach the markup). A callback
  handed to the browser keeps the props of the render that created it.
\<close>

record WheelProps =
  p_items :: "WheelItem list"
  p_value :: int
  p_centered :: bool

text \<open>
  The state of a mounted wheel: the props of its last render, its four refs, and the
  browser's side of \<open>setTimeout\<close> and \<open>requestAnimationFrame\<close>: the callbacks that are
  pending, under their handles (with the delay asked for), and the last handle handed out.
  Handles are positive (HTML, timers), so a stored handle is truthy.
\<close>

record Wheel =
  props :: WheelProps
  containerRef :: "Element option"
  animationFrameRef :: "nat option"
  snapTimeoutRef :: "nat option"
  isUserScrollingRef :: bool
  lastTimeoutId :: nat
  snapTimers :: "(nat \<times> nat \<times> WheelProps) list"
  lastFrameId :: nat
  frameRequests :: "(nat \<times> WheelProps) list"

text \<open>\<open>window.clearTimeout(h)\<close> and \<open>cancelAnimationFrame(h)\<close> on the pending callbacks.\<close>

definition clearHandle :: "nat \<Rightarrow> (nat \<times> 'a) list \<Rightarrow> (nat \<times> 'a) list" where
  "clearHandle h pending = filter (\<lambda>e. fst e \<noteq> h) pending"

text \<open>
  \<open>scheduleSnapToClosest(el)\<close>: clear the timeout in \<open>snapTimeoutRef\<close>, set a new one of
  120 ms whose callback is \<open>snapToClosest(el); isUserScrollingRef.current = false\<close>.
\<close>

definition scheduleSnapToClosest :: "Wheel \<Rightarrow> Wheel" where
  "scheduleSnapToClosest w =
     (let w1 = (case snapTimeoutRef w of
                  Some h \<Rightarrow> if h \<noteq> 0 then w\<lparr>snapTimers := clearHandle h (snapTimers w)\<rparr> else w
                | None \<Rightarrow> w);
          h' = Suc (lastTimeoutId w1)
      in w1\<lparr>lastTimeoutId := h',
             snapTimers := snapTimers w1 @ [(h', 120, props w1)],
             snapTimeoutRef := Some h'\<rparr>)"

text \<open>\<open>handleScroll(e)\<close>, the \<open>onScroll\<close> handler of the container.\<close>

definition handleScroll :: "Wheel \<Rightarrow> Wheel" where
  "handleScroll w =
     (let w1 = w\<lparr>isUserScrollingRef := True\<rparr>;
          w2 = scheduleSnapToClosest w1;
          w3 = (case animationFrameRef w2 of
                  Some h \<Rightarrow>
                    if h \<noteq> 0 then w2\<lparr>frameRequests := clearHandle h (frameRequests w2)\<rparr> else w2
                | None \<Rightarrow> w2);
          h' = Suc (lastFrameId w3)
      in w3\<lparr>lastFrameId := h',
             frameRequests := frameRequests w3 @ [(h', props w3)],
             animationFrameRef := Some h'\<rparr>)"

text \<open>
  The effect that keeps the wheel in sync when the parent changes \<open>value\<close>. The parent
  builds new item arrays on every render, so the effect runs after every render.
\<close>

definition syncEffect :: "Wheel \<Rightarrow> Call list" where
  "syncEffect w =
     (let items = p_items (props w);
          centered = p_centered (props w);
          ix = findIndex items (p_value (props w))
      in if ix < 0 then []
         else case containerRef w of
           None \<Rightarrow> []
         | Some el \<Rightarrow>
             (let target =
                (if centered then js_mul (real_of_int ix) ITEM_HEIGHT
                 else if length items > 1
                   then js_mul (js_div (real_of_int ix) (real (length items) - 1))
                          (real_of_int (scrollHeight el - clientHeight el))
                   else 0)
              in if \<bar>js_sub (scrollTop el) target\<bar> > 2 \<and> \<not> isUserScrollingRef w
                 then scrollToIndex centered items (containerRef w) ix Smooth
                 else []))"

text \<open>
  What can happen to a mounted wheel: the browser moves the scroll position to an offset
  and fires \<open>onScroll\<close>; a pending animation-frame callback runs; a pending timeout runs;
  the parent renders the wheel with (new) props; the item at a position is clicked.
  A step returns the calls made during it. An exception in a callback ends the callback
  there: the statements after the throwing one do not run.
\<close>

datatype Event = Scroll real | Frame nat | Timeout nat | Render WheelProps | Click nat

fun step :: "Event \<Rightarrow> Wheel \<Rightarrow> Wheel \<times> Call list" where
  "step (Scroll x) w =
     (case containerRef w of
        None \<Rightarrow> (w, [])
      | Some el \<Rightarrow> (handleScroll (w\<lparr>containerRef := Some (el\<lparr>scrollTop := x\<rparr>)\<rparr>), []))"
| "step (Frame h) w =
     (case (map_of (frameRequests w) h, containerRef w) of
        (Some cl, Some el) \<Rightarrow>
          (let w1 = w\<lparr>frameRequests := clearHandle h (frameRequests w)\<rparr> in
           case frameCallback (p_centered cl) (p_items cl) (p_value cl) el of
             Inl err \<Rightarrow> (w1, [])
           | Inr calls \<Rightarrow> (w1, calls))
      | _ \<Rightarrow> (w, []))"
| "step (Timeout h) w =
     (case (map_of (snapTimers w) h, containerRef w) of
        (Some (delay, cl), Some el) \<Rightarrow>
          (let w1 = w\<lparr>snapTimers := clearHandle h (snapTimers w)\<rparr> in
           case snapToClosest (p_centered cl) (p_items cl) (p_value cl) (containerRef w) el of
             Inl err \<Rightarrow> (w1, [])
           | Inr calls \<Rightarrow> (w1\<lparr>isUserScrollingRef := False\<rparr>, calls))
      | _ \<Rightarrow> (w, []))"
| "step (Render p) w = (let w1 = w\<lparr>props := p\<rparr> in (w1, syncEffect w1))"
| "step (Click i) w =
     (let items = p_items (props w) in
      if i < length items
      then (w, onClick (p_centered (props w)) items (p_value (props w)) (containerRef w)
                 (items ! i))
      else (w, []))"





section \<open>The composite picker (\<open>PersianWheelPicker\<close>)\<close>

subsection \<open>Strings\<close>

text \<open>\<open>String(n)\<close> and \<open>n.toString()\<close> of a whole number, and \<open>s.padStart(n, c)\<close>.\<close>

fun nat_digits :: "nat \<Rightarrow> string" where
  "nat_digits n =
     (if n < 10 then [''0123456789'' ! n]
      else nat_digits (n div 10) @ [''0123456789'' ! (n mod 10)])"

declare nat_digits.simps [simp del]

definition toString :: "int \<Rightarrow> string" where
  "toString n = (if n < 0 then CHR ''-'' # nat_digits (nat (- n)) else nat_digits (nat n))"

definition padStart :: "nat \<Rightarrow> char \<Rightarrow> string \<Rightarrow> string" where
  "padStart n c s = replicate (n - length s) c @ s"

text \<open>
  \<open>`${year}-${String(month).padStart(2, "0")}-${String(day).padStart(2, "0")}`\<close>
\<close>

definition jalaliStr :: "int \<Rightarrow> int \<Rightarrow> int \<Rightarrow> string" where
  "jalaliStr y m d =
     toString y @ ''-'' @ padStart 2 (CHR ''0'') (toString m)
       @ ''-'' @ padStart 2 (CHR ''0'') (toString d)"

subsection \<open>The calendar library\<close>

text \<open>
  The picker takes its calendar arithmetic from the calendar library (dayjs with the
  jalaliday plugin), which is not part of this repository. The two computations the
  picker's state depends on are parameters of the model:
  \<^item> \<open>daysInMonthOf y m0\<close> is
    \<open>dayjs().calendar("jalali").year(y).month(m0).date(1).daysInMonth()\<close>, with \<open>m0\<close> the
    month counted from 0;
  \<^item> \<open>toGregorian s\<close> is
    \<open>dayjs(s, { jalali: true }).calendar("gregory").format("YYYY-MM-DD")\<close>.

  Both are taken to depend on their arguments only.
\<close>

record Lib =
  daysInMonthOf :: "int \<Rightarrow> int \<Rightarrow> int"
  toGregorian :: "string \<Rightarrow> string"

text \<open>What the getters \<open>year()\<close>, \<open>month()\<close> (from 0) and \<open>date()\<close> of a date object return.\<close>

record Dayjs =
  jy :: int
  jM :: int
  jD :: int

subsection \<open>Resolving the initial date\<close>

text \<open>
  A JavaScript number: the result of \<open>Number(s)\<close> and the argument of the library's
  setters. \<open>minus_one\<close> is \<open>n - 1\<close> (exact on finite numbers).
\<close>

datatype jsnum = NaN | PosInfinity | NegInfinity | Finite real

definition minus_one :: "jsnum \<Rightarrow> jsnum" where
  "minus_one n = (case n of Finite x \<Rightarrow> Finite (x - 1) | other \<Rightarrow> other)"

text \<open>
  \<open>s.split(sep)\<close> for a separator of one character: the pieces between the separators,
  one more than there are separators.
\<close>

fun split :: "char \<Rightarrow> string \<Rightarrow> string list" where
  "split sep [] = [[]]"
| "split sep (c # cs) =
     (if c = sep then [] # split sep cs
      else (case split sep cs of p # ps \<Rightarrow> (c # p) # ps | [] \<Rightarrow> [[c]]))"

text \<open>
  An element of an array taken by destructuring, \<open>const [y, m, d] = parts\<close>: \<open>undefined\<close>
  (here \<open>None\<close>) where the array is too short.
\<close>

definition element :: "'a list \<Rightarrow> nat \<Rightarrow> 'a option" where
  "element xs i = (if i < length xs then Some (xs ! i) else None)"

text \<open>
  The part of the calendar library that the resolution of the initial date uses, over
  the library's date objects \<open>'d\<close>: today's date in the Jalali calendar
  (\<open>dayjs().calendar("jalali")\<close>), what \<open>year\<close>, \<open>month\<close> and \<open>date\<close> do as setters and as
  getters, and \<open>isValid()\<close>. They are parameters, as is \<open>Number\<close> below.
\<close>

record 'd Calendar =
  now_jalali :: 'd
  set_year :: "jsnum \<Rightarrow> 'd \<Rightarrow> 'd"
  set_month :: "jsnum \<Rightarrow> 'd \<Rightarrow> 'd"
  set_date :: "jsnum \<Rightarrow> 'd \<Rightarrow> 'd"
  get_year :: "'d \<Rightarrow> jsnum"
  get_month :: "'d \<Rightarrow> jsnum"
  get_date :: "'d \<Rightarrow> jsnum"
  isValid :: "'d \<Rightarrow> bool"

text \<open>
  \<open>year\<close>, \<open>month\<close> and \<open>date\<close> are getter and setter in one. Called without an argument,
  as the picker calls \<open>initial.year()\<close>, \<open>initial.month()\<close> and \<open>initial.date()\<close>, they
  return the number; called with one they return the changed date object. An argument
  that is \<open>undefined\<close> is no argument: the library tests \<open>input === undefined\<close>. So the
  result of a call is a date object or a number.
\<close>

datatype 'd jsvalue = Object 'd | NumberValue jsnum

definition accessor ::
  "(jsnum \<Rightarrow> 'd \<Rightarrow> 'd) \<Rightarrow> ('d \<Rightarrow> jsnum) \<Rightarrow> jsnum option \<Rightarrow> 'd \<Rightarrow> 'd jsvalue" where
  "accessor setter getter input x =
     (case input of None \<Rightarrow> NumberValue (getter x) | Some n \<Rightarrow> Object (setter n x))"

text \<open>
  A call of a method of date objects on a value: a number has no such method, and the
  call throws a \<open>TypeError\<close>.
\<close>

definition invoke :: "'d jsvalue \<Rightarrow> ('d \<Rightarrow> 'a) \<Rightarrow> Error + 'a" where
  "invoke v method =
     (case v of Object x \<Rightarrow> Inr (method x) | NumberValue n \<Rightarrow> Inl TypeError)"

text \<open>
  The first lines of \<open>PersianWheelPicker\<close>, up to the date \<open>initial\<close>. The prop
  \<open>initialJalaliDate\<close> is optional (\<open>None\<close> when absent); the empty string is falsy.
  \<open>m - 1\<close> of an undefined \<open>m\<close> is \<open>NaN\<close>.
\<close>

definition resolveInitial ::
  "(string \<Rightarrow> jsnum) \<Rightarrow> 'd Calendar \<Rightarrow> string option \<Rightarrow> Error + 'd" where
  "resolveInitial Number cal initialJalaliDate =
     (let todayJalali = now_jalali cal in
      case initialJalaliDate of
        None \<Rightarrow> Inr todayJalali
      | Some s \<Rightarrow>
          if s = [] then Inr todayJalali
          else
            (let parts = map Number (split (CHR ''-'') s);
                 y = element parts 0;
                 m = element parts 1;
                 d = element parts 2;
                 m_minus_1 = (case m of None \<Rightarrow> NaN | Some n \<Rightarrow> minus_one n)
             in case invoke (Object todayJalali) (accessor (set_year cal) (get_year cal) y) of
                  Inl e \<Rightarrow> Inl e
                | Inr v1 \<Rightarrow>
                 (case invoke v1 (accessor (set_month cal) (get_month cal) (Some m_minus_1)) of
                    Inl e \<Rightarrow> Inl e
                  | Inr v2 \<Rightarrow>
                   (case invoke v2 (accessor (set_date cal) (get_date cal) d) of
                      Inl e \<Rightarrow> Inl e
                    | Inr parsed \<Rightarrow>
                     (case invoke parsed (isValid cal) of
                        Inl e \<Rightarrow> Inl e
                      | Inr valid \<Rightarrow>
                          (case parsed of
                             Object p \<Rightarrow> Inr (if valid then p else todayJalali)
                           | NumberValue n \<Rightarrow> Inr todayJalali))))))"

subsection \<open>State\<close>

text \<open>\<open>type PickerChangeValue = { jalali: string; gregorian: string }\<close>\<close>

record PickerChangeValue =
  jalali :: string
  gregorian :: string

type_synonym DateState = "int \<times> int \<times> int"

text \<open>
  The three \<open>useState\<close> cells, the \<open>timerRef\<close> of \<open>useDebouncedCallback\<close>, the browser's
  pending timeouts of this component (handle, time at which it is due, and the year,
  month and day that its callback closed over) with the last handle handed out, the
  clock, and two logs: the states of the committed renders (what the wheels and the
  preview were given), and the calls of the \<open>onChange\<close> prop with their time.
\<close>

record Picker =
  year :: int
  month :: int
  day :: int
  timerRef :: "nat option"
  lastTimerId :: nat
  pendingTimeouts :: "(nat \<times> nat \<times> DateState) list"
  now :: nat
  rendered :: "DateState list"
  notified :: "(nat \<times> PickerChangeValue) list"

subsection \<open>Item lists\<close>

text \<open>
  \<open>for (let y = maxYear; y >= minYear; y--) yearItems.push({ value: y, label: y.toString() })\<close>
\<close>

function yearItems_loop :: "int \<Rightarrow> int \<Rightarrow> WheelItem list \<Rightarrow> WheelItem list" where
  "yearItems_loop y minYear acc =
     (if y \<ge> minYear
      then yearItems_loop (y - 1) minYear (acc @ [\<lparr>value = y, label = toString y\<rparr>])
      else acc)"
  by pat_completeness auto
termination
  by (relation "measure (\<lambda>(y, minYear, acc). nat (y - minYear + 1))") auto

declare yearItems_loop.simps [simp del]

definition yearItems :: "int \<Rightarrow> int \<Rightarrow> WheelItem list" where
  "yearItems minYear maxYear = yearItems_loop maxYear minYear []"

text \<open>
  \<open>Array.from({ length: daysInMonth }, (_, i) => ({ value: i + 1, label: ... }))\<close>
\<close>

definition dayItems :: "int \<Rightarrow> WheelItem list" where
  "dayItems daysInMonth =
     map (\<lambda>i. \<lparr>value = int i + 1, label = padStart 2 (CHR ''0'') (toString (int i + 1))\<rparr>)
       [0 ..< nat daysInMonth]"

subsection \<open>The debounced notification\<close>

text \<open>
  The function that \<open>useDebouncedCallback(cb, delay)\<close> returns: clear the timeout in
  \<open>timerRef\<close>, set a new one. The callback \<open>cb\<close> is the one of the current render; it reads
  that render's \<open>year\<close>, \<open>month\<close> and \<open>day\<close>.
\<close>

definition debounced :: "nat \<Rightarrow> Picker \<Rightarrow> Picker" where
  "debounced delay p =
     (let p1 = (case timerRef p of
                  Some h \<Rightarrow>
                    if h \<noteq> 0 then p\<lparr>pendingTimeouts := clearHandle h (pendingTimeouts p)\<rparr>
                    else p
                | None \<Rightarrow> p);
          h' = Suc (lastTimerId p1)
      in p1\<lparr>lastTimerId := h',
             pendingTimeouts :=
               pendingTimeouts p1 @ [(h', now p1 + delay, (year p1, month p1, day p1))],
             timerRef := Some h'\<rparr>)"

definition emitChange :: "Picker \<Rightarrow> Picker" where
  "emitChange p = debounced 150 p"

text \<open>
  The body of the debounced callback, for the year, month and day it closed over: the
  value handed to \<open>onChange\<close>.
\<close>

definition changeValue :: "Lib \<Rightarrow> DateState \<Rightarrow> PickerChangeValue" where
  "changeValue lib s =
     (case s of (y, m, d) \<Rightarrow>
        \<lparr>jalali = jalaliStr y m d, gregorian = toGregorian lib (jalaliStr y m d)\<rparr>)"

text \<open>
  A pending timeout runs: \<open>onChange?.({ jalali, gregorian })\<close>. \<open>onChange\<close> is \<open>True\<close> when
  the prop was supplied. A timeout runs at the time it is due.
\<close>

definition runTimeout :: "Lib \<Rightarrow> bool \<Rightarrow> nat \<times> nat \<times> DateState \<Rightarrow> Picker \<Rightarrow> Picker" where
  "runTimeout lib onChange t p =
     (case t of (h, due, s) \<Rightarrow>
        if onChange then p\<lparr>notified := notified p @ [(due, changeValue lib s)]\<rparr> else p)"

text \<open>
  Time passes: the timeouts due by then run, in the order they were set (they all have
  the same delay), and leave the pending ones.
\<close>

definition elapse :: "Lib \<Rightarrow> bool \<Rightarrow> nat \<Rightarrow> Picker \<Rightarrow> Picker" where
  "elapse lib onChange dt p =
     (let t = now p + dt;
          due = filter (\<lambda>e. fst (snd e) \<le> t) (pendingTimeouts p);
          rest = filter (\<lambda>e. \<not> fst (snd e) \<le> t) (pendingTimeouts p)
      in fold (runTimeout lib onChange) due (p\<lparr>now := t, pendingTimeouts := rest\<rparr>))"

subsection \<open>Renders and their effects\<close>

text \<open>
  A render is committed with the current year, month and day; then its effects run, in
  the order of the source: the clamp effect (\<open>if (day > daysInMonth) setDay(daysInMonth)\<close>)
  and the effect that calls \<open>emitChange()\<close>. \<open>emitChange\<close> is a new function on every
  render (its \<open>cb\<close> is), so the second effect runs after every render; the first runs when
  \<open>daysInMonth\<close> or \<open>day\<close> changed, and with neither changed its test is false as it was
  before. A \<open>setDay\<close> in an effect takes effect in the next render, which follows at once.
\<close>

function commit :: "Lib \<Rightarrow> Picker \<Rightarrow> Picker" where
  "commit lib p =
     (let daysInMonth = daysInMonthOf lib (year p) (month p - 1);
          p1 = p\<lparr>rendered := rendered p @ [(year p, month p, day p)]\<rparr>;
          p2 = emitChange p1
      in if day p > daysInMonth then commit lib (p2\<lparr>day := daysInMonth\<rparr>) else p2)"
  by pat_completeness auto
termination
  by (relation
        "measure (\<lambda>(lib, p). if day p > daysInMonthOf lib (year p) (month p - 1) then 1 else 0)")
     (auto simp: emitChange_def debounced_def Let_def split: option.splits)

declare commit.simps [simp del]

text \<open>
  Mounting: the \<open>useState\<close> initialisers from the resolved initial date, then the first
  render.
\<close>

definition mount :: "Lib \<Rightarrow> int \<Rightarrow> int \<Rightarrow> Dayjs \<Rightarrow> nat \<Rightarrow> Picker" where
  "mount lib minYear maxYear initial t0 =
     commit lib
       \<lparr>year = clamp (jy initial) minYear maxYear,
        month = jM initial + 1,
        day = jD initial,
        timerRef = None,
        lastTimerId = 0,
        pendingTimeouts = [],
        now = t0,
        rendered = [],
        notified = []\<rparr>"

text \<open>
  A wheel publishes a value: \<open>setYear\<close>, \<open>setMonth\<close> or \<open>setDay\<close> is called with it. A state
  setter called with the value the state has does not render.
\<close>

datatype Setter = SetYear int | SetMonth int | SetDay int

fun setState :: "Setter \<Rightarrow> Picker \<Rightarrow> Picker" where
  "setState (SetYear v) p = p\<lparr>year := v\<rparr>"
| "setState (SetMonth v) p = p\<lparr>month := v\<rparr>"
| "setState (SetDay v) p = p\<lparr>day := v\<rparr>"

definition changes :: "Setter \<Rightarrow> Picker \<Rightarrow> bool" where
  "changes s p =
     (case s of SetYear v \<Rightarrow> v \<noteq> year p | SetMonth v \<Rightarrow> v \<noteq> month p | SetDay v \<Rightarrow> v \<noteq> day p)"

definition dispatch :: "Lib \<Rightarrow> Setter \<Rightarrow> Picker \<Rightarrow> Picker" where
  "dispatch lib s p = (if changes s p then commit lib (setState s p) else p)"

text \<open>
  What happens to a mounted picker: a wheel publishes a value; time passes; or the picker
  is rendered again with its state unchanged, because its parent renders (a parent that
  keeps the value it was notified of in its own state renders on every notification).
  Such a render runs the effects like any other.
\<close>

datatype PickerEvent = Publish Setter | Elapse nat | Rerender

fun run_picker :: "Lib \<Rightarrow> bool \<Rightarrow> PickerEvent list \<Rightarrow> Picker \<Rightarrow> Picker" where
  "run_picker lib onChange [] p = p"
| "run_picker lib onChange (Publish s # es) p = run_picker lib onChange es (dispatch lib s p)"
| "run_picker lib onChange (Elapse dt # es) p =
     run_picker lib onChange es (elapse lib onChange dt p)"
| "run_picker lib onChange (Rerender # es) p = run_picker lib onChange es (commit lib p)"

section \<open>Invariants used in the proofs\<close>

text \<open>
  The timeouts of the picker are in order: none is pending, or the only one pending is
  the one \<open>timerRef\<close> names, and it is due later than now.
\<close>

definition tidy :: "Picker \<Rightarrow> bool" where
  "tidy p = (pendingTimeouts p = []
     \<or> (\<exists>h due c. h \<noteq> 0 \<and> timerRef p = Some h \<and> now p < due
           \<and> pendingTimeouts p = [(h, due, c)]))"

text \<open>
  A notification of the current year, month and day is pending, due one debounce delay
  from now.
\<close>

definition armed :: "Picker \<Rightarrow> bool" where
  "armed p = (\<exists>h. h \<noteq> 0 \<and> timerRef p = Some h
     \<and> pendingTimeouts p = [(h, now p + 150, (year p, month p, day p))])"






text \<open>
  The handles of the pending callbacks of a wheel are ones the browser has handed out.
\<close>

definition fresh_handles :: "Wheel \<Rightarrow> bool" where
  "fresh_handles w =
     ((\<forall>e \<in> set (frameRequests w). fst e \<le> lastFrameId w)
      \<and> (\<forall>e \<in> set (snapTimers w). fst e \<le> lastTimeoutId w))"

section \<open>Examples\<close>

text \<open>
  Five items with the values 1 to 5 in a centered container showing five rows, and twelve
  items with the values 1 to 12 in a linear container (height \<open>44 * 5.5\<close>).
\<close>

definition five_items :: "WheelItem list" where
  "five_items = dayItems 5"

definition five_rows :: "real \<Rightarrow> Element" where
  "five_rows offset = \<lparr>scrollTop = offset, scrollHeight = 396, clientHeight = 220\<rparr>"

definition twelve_items :: "WheelItem list" where
  "twelve_items = dayItems 12"

definition linear_rows :: "real \<Rightarrow> Element" where
  "linear_rows offset = \<lparr>scrollTop = offset, scrollHeight = 528, clientHeight = 242\<rparr>"

text \<open>
  A calendar library for the examples: the month lengths of a common Jalali year (31 days
  for the first six months, 30 for the next five, 29 for Esfand), and the Gregorian dates
  of the days the examples use.
\<close>

definition example_lib :: Lib where
  "example_lib =
     \<lparr>daysInMonthOf = (\<lambda>y m0. if m0 < 6 then 31 else if m0 < 11 then 30 else 29),
      toGregorian = (\<lambda>s. if s = ''1379-10-05'' then ''2000-12-25''
                         else if s = ''1379-10-07'' then ''2000-12-27''
                         else if s = ''1400-07-30'' then ''2021-10-22''
                         else ''Invalid Date'')\<rparr>"





text \<open>Two initial dates: 5 Dey 1379 (the date of the demo page) and 31 Shahrivar 1400.\<close>

definition dey_5 :: Dayjs where
  "dey_5 = \<lparr>jy = 1379, jM = 9, jD = 5\<rparr>"


section \<open>Properties of the handlers\<close>

subsection \<open>The arithmetic at work\<close>

text \<open>
  The rounding of doubles shows in the linear wheel of twelve items: at the offset 195 of
  286 the product \<open>(195 / 286) * 11\<close> is not \<open>15 / 2\<close> but the double just below it, and the
  index is 7, not 8; and the offset of the item of index 9 is not 234 but the double just
  above it.
\<close>

lemma double_examples:
  "to_double (1 / 10) = 3602879701896397 / 36028797018963968"
  "js_mul (js_div 195 286) 11 = 8444249301319679 / 1125899906842624"
  "js_mul (js_div 7 11) 286 = 182"
  "js_mul (js_div 9 11) 286 = 8233143068786689 / 35184372088832"
  by code_simp+



lemma frame_index_eq_snap_index: "frame_index centered items el = snap_index centered items el"
  by (simp add: frame_index_def snap_index_def)


lemma snap_index_range:
  assumes "items \<noteq> []"
  shows "0 \<le> snap_index centered items el \<and> snap_index centered items el < int (length items)"
proof -
  from assms have "0 < length items" by simp
  then show ?thesis
    by (auto simp: snap_index_def Let_def clamp_def)
qed


lemma scrollToIndex_exact:
  assumes "items \<noteq> []"
  shows "scrollToIndex centered items (Some el) i b =
     [ScrollTo (spec_exact_offset centered ITEM_HEIGHT (length items)
                  (scrollHeight el - clientHeight el) i) b]"
proof -
  from assms have "length items = 1 \<or> 1 < length items"
    by (cases items) auto
  then show ?thesis
    by (auto simp: scrollToIndex_def spec_exact_offset_def Let_def)
qed

lemma target_is_exact_offset:
  assumes "items \<noteq> []"
  shows "(if centered then js_mul (real_of_int ix) ITEM_HEIGHT
          else if length items > 1
            then js_mul (js_div (real_of_int ix) (real (length items) - 1))
                   (real_of_int (scrollHeight el - clientHeight el))
            else 0)
         = spec_exact_offset centered ITEM_HEIGHT (length items)
             (scrollHeight el - clientHeight el) ix"
proof -
  from assms have "length items = 1 \<or> 1 < length items"
    by (cases items) auto
  then show ?thesis
    by (auto simp: spec_exact_offset_def)
qed



lemma five_items_eval:
  "five_items =
     [\<lparr>value = 1, label = ''01''\<rparr>, \<lparr>value = 2, label = ''02''\<rparr>,
      \<lparr>value = 3, label = ''03''\<rparr>, \<lparr>value = 4, label = ''04''\<rparr>,
      \<lparr>value = 5, label = ''05''\<rparr>]"
  by code_simp

lemma twelve_items_facts:
  "length twelve_items = 12" "twelve_items \<noteq> []"
  "distinct (map WheelItem.value twelve_items)"
  "WheelItem.value (twelve_items ! 7) = 8" "WheelItem.value (twelve_items ! 9) = 10"
  by code_simp+

subsection \<open>The index is in bounds\<close>

lemma yearItems_empty: "maxYear < minYear \<Longrightarrow> yearItems minYear maxYear = []"
  by (simp add: yearItems_def yearItems_loop.simps [of maxYear minYear])

lemma snap_index_empty: "snap_index centered [] el = 0"
  by (simp add: snap_index_def Let_def clamp_def)

lemma item_at_empty: "item_at [] i = None"
  by (simp add: item_at_def)

subsection \<open>The callbacks that a scroll signal leaves pending\<close>









lemma fresh_handles_upd [simp]:
  "fresh_handles (w\<lparr>containerRef := c\<rparr>) = fresh_handles w"
  by (simp add: fresh_handles_def)

lemma handleScroll_upd_container:
  "lastFrameId (w\<lparr>containerRef := c\<rparr>) = lastFrameId w"
  "lastTimeoutId (w\<lparr>containerRef := c\<rparr>) = lastTimeoutId w"
  "props (w\<lparr>containerRef := c\<rparr>) = props w"
  by simp_all

subsection \<open>Finding the index of a value\<close>

lemma findIndex_from_distinct:
  "i < length items \<Longrightarrow> distinct (map WheelItem.value items) \<Longrightarrow>
   findIndex_from k items (WheelItem.value (items ! i)) = k + int i"
proof (induction items arbitrary: k i)
  case Nil
  then show ?case by simp
next
  case (Cons a rest)
  show ?case
  proof (cases i)
    case 0
    then show ?thesis by simp
  next
    case (Suc j)
    with Cons.prems have j: "j < length rest" and d: "distinct (map WheelItem.value rest)"
      and notin: "WheelItem.value a \<notin> WheelItem.value ` set rest"
      by auto
    from j have "WheelItem.value (rest ! j) \<in> WheelItem.value ` set rest" by simp
    with notin have ne: "WheelItem.value a \<noteq> WheelItem.value (rest ! j)" by metis
    from Cons.IH [OF j d, of "k + 1"] ne Suc show ?thesis by simp
  qed
qed

lemma findIndex_distinct:
  "i < length items \<Longrightarrow> distinct (map WheelItem.value items) \<Longrightarrow>
   findIndex items (WheelItem.value (items ! i)) = int i"
  by (simp add: findIndex_def findIndex_from_distinct)




subsection \<open>A scroll signal, its frame callback and its snap\<close>

lemma step_scroll:
  "containerRef w = Some el \<Longrightarrow>
   step (Scroll x) w = (handleScroll (w\<lparr>containerRef := Some (el\<lparr>scrollTop := x\<rparr>)\<rparr>), [])"
  by simp







subsection \<open>The handlers never read past the items\<close>

text \<open>
  Claim C9. For a non-empty item list the index of the snap and of the per-frame callback
  lies in \<open>[0, items.length - 1]\<close>, so \<open>items[index]\<close> is an item and neither handler
  throws. The precondition is needed: with \<open>minYear > maxYear\<close> the composite builds an
  empty year list, the index is 0, \<open>items[0]\<close> is undefined and reading its \<open>value\<close> throws.
\<close>

theorem index_in_bounds_iff_nonempty:
  "(items \<noteq> [] \<longrightarrow>
      0 \<le> snap_index centered items el \<and> snap_index centered items el < int (length items)
      \<and> 0 \<le> frame_index centered items el \<and> frame_index centered items el < int (length items)
      \<and> item_at items (snap_index centered items el) \<noteq> None
      \<and> item_at items (frame_index centered items el) \<noteq> None
      \<and> snapToClosest centered items cur_value container el \<noteq> Inl TypeError
      \<and> frameCallback centered items cur_value el \<noteq> Inl TypeError)
   \<and> (maxYear < minYear \<longrightarrow>
      yearItems minYear maxYear = []
      \<and> snap_index centered (yearItems minYear maxYear) el = 0
      \<and> frame_index centered (yearItems minYear maxYear) el = 0
      \<and> item_at (yearItems minYear maxYear) 0 = None
      \<and> snapToClosest centered (yearItems minYear maxYear) cur_value container el = Inl TypeError
      \<and> frameCallback centered (yearItems minYear maxYear) cur_value el = Inl TypeError)"
proof (intro conjI impI)
  assume ne: "items \<noteq> []"
  note r = snap_index_range [OF ne, of centered el]
  show "0 \<le> snap_index centered items el" using r by simp
  show "snap_index centered items el < int (length items)" using r by simp
  show "0 \<le> frame_index centered items el" using r by (simp add: frame_index_eq_snap_index)
  show "frame_index centered items el < int (length items)"
    using r by (simp add: frame_index_eq_snap_index)
  show "item_at items (snap_index centered items el) \<noteq> None"
    using r by (simp add: item_at_def)
  show "item_at items (frame_index centered items el) \<noteq> None"
    using r by (simp add: item_at_def frame_index_eq_snap_index)
  show "snapToClosest centered items cur_value container el \<noteq> Inl TypeError"
    using r by (simp add: snapToClosest_def item_at_def Let_def)
  show "frameCallback centered items cur_value el \<noteq> Inl TypeError"
    using r by (simp add: frameCallback_def item_at_def Let_def frame_index_eq_snap_index)
next
  assume lt: "maxYear < minYear"
  then have e: "yearItems minYear maxYear = []" by (rule yearItems_empty)
  show "yearItems minYear maxYear = []" by (rule e)
  show "snap_index centered (yearItems minYear maxYear) el = 0"
    by (simp add: e snap_index_empty)
  show "frame_index centered (yearItems minYear maxYear) el = 0"
    by (simp add: e snap_index_empty frame_index_eq_snap_index)
  show "item_at (yearItems minYear maxYear) 0 = None"
    by (simp add: e item_at_empty)
  show "snapToClosest centered (yearItems minYear maxYear) cur_value container el = Inl TypeError"
    by (simp add: e snapToClosest_def snap_index_empty item_at_empty)
  show "frameCallback centered (yearItems minYear maxYear) cur_value el = Inl TypeError"
    by (simp add: e frameCallback_def snap_index_empty frame_index_eq_snap_index item_at_empty)
qed

theorem index_in_bounds_iff_nonempty_witness:
  "five_items \<noteq> [] \<and> (1299 :: int) < 1300
   \<and> snap_index True five_items (five_rows 100) < int (length five_items)
   \<and> snapToClosest True five_items 1 (Some (five_rows 100)) (five_rows 100) \<noteq> Inl TypeError
   \<and> yearItems 1300 1299 = []
   \<and> snapToClosest True (yearItems 1300 1299) 1 (Some (five_rows 100)) (five_rows 100)
       = Inl TypeError"
proof -
  have ne: "five_items \<noteq> []" by (simp add: five_items_def dayItems_def)
  have lt: "(1299 :: int) < 1300" by simp
  show ?thesis
    using ne lt
      index_in_bounds_iff_nonempty [of five_items True "five_rows 100" 1
        "Some (five_rows 100)" 1299 1300]
    by blast
qed

subsection \<open>Clicking an item\<close>

text \<open>
  Claim C8, as the code has it: a click on the item that is already the wheel's current
  value publishes nothing. Here the wheel shows 3 and its third item, of value 3, is
  clicked.
\<close>

theorem click_on_current_value_publishes_nothing:
  "WheelItem.value (five_items ! 2) = 3
   \<and> OnChange 3 \<notin> set (onClick True five_items 3 (Some (five_rows 0)) (five_items ! 2))"
  by code_simp

text \<open>
  Claim C8, amended. In a mounted wheel whose items have distinct values, a click on an
  item publishes the item's value if it is not the wheel's current value, and publishes
  nothing if it is; and it issues a smooth scroll to the item's exact offset if and only
  if the current offset differs from that offset by more than 1 (offset and difference
  as doubles); it makes no other call.
\<close>

theorem click_publishes_change_and_scrolls_iff_off:
  assumes "i < length items" and "distinct (map WheelItem.value items)"
  shows "onClick centered items cur_value (Some el) (items ! i) =
     (if WheelItem.value (items ! i) \<noteq> cur_value
      then [OnChange (WheelItem.value (items ! i))] else [])
     @ (if \<bar>js_sub (scrollTop el)
              (spec_exact_offset centered ITEM_HEIGHT (length items)
                 (scrollHeight el - clientHeight el) (int i))\<bar> > 1
        then [ScrollTo (spec_exact_offset centered ITEM_HEIGHT (length items)
                          (scrollHeight el - clientHeight el) (int i)) Smooth]
        else [])"
proof -
  from assms(1) have ne: "items \<noteq> []" by auto
  have ix: "findIndex items (WheelItem.value (items ! i)) = int i"
    by (rule findIndex_distinct [OF assms])
  show ?thesis
    unfolding onClick_def ix Let_def option.case target_is_exact_offset [OF ne]
      scrollToIndex_exact [OF ne]
    by simp
qed

text \<open>
  In the linear wheel of twelve items the offset of the item of index 9 is the double
  just above 234. At the offset 233 the distance is just above 1 and the click scrolls; at
  234 it does not.
\<close>

theorem click_publishes_change_and_scrolls_iff_off_witness:
  "(9 :: nat) < length twelve_items \<and> distinct (map WheelItem.value twelve_items)
   \<and> onClick False twelve_items 1 (Some (linear_rows 233)) (twelve_items ! 9)
       = [OnChange 10, ScrollTo (8233143068786689 / 35184372088832) Smooth]
   \<and> onClick False twelve_items 1 (Some (linear_rows 234)) (twelve_items ! 9) = [OnChange 10]"
proof -
  have l: "(9 :: nat) < length twelve_items" by (simp add: twelve_items_facts)
  have d: "distinct (map WheelItem.value twelve_items)" by (simp add: twelve_items_facts)
  have off: "spec_exact_offset False ITEM_HEIGHT 12 286 9 = 8233143068786689 / 35184372088832"
    by code_simp
  have far: "\<bar>js_sub 233 (8233143068786689 / 35184372088832)\<bar> > 1" by code_simp
  have near: "\<not> \<bar>js_sub 234 (8233143068786689 / 35184372088832)\<bar> > 1" by code_simp
  have m: "scrollHeight (linear_rows 233) - clientHeight (linear_rows 233) = 286"
    "scrollTop (linear_rows 233) = 233"
    "scrollHeight (linear_rows 234) - clientHeight (linear_rows 234) = 286"
    "scrollTop (linear_rows 234) = 234"
    by (simp_all add: linear_rows_def)
  have a: "onClick False twelve_items 1 (Some (linear_rows 233)) (twelve_items ! 9)
       = [OnChange 10, ScrollTo (8233143068786689 / 35184372088832) Smooth]"
    using click_publishes_change_and_scrolls_iff_off [OF l d, of False 1 "linear_rows 233"] far
    by (simp add: twelve_items_facts m off)
  have b: "onClick False twelve_items 1 (Some (linear_rows 234)) (twelve_items ! 9)
       = [OnChange 10]"
    using click_publishes_change_and_scrolls_iff_off [OF l d, of False 1 "linear_rows 234"] near
    by (simp add: twelve_items_facts m off)
  show ?thesis using l d a b by (simp only: simp_thms)
qed

subsection \<open>External updates during a gesture\<close>







section \<open>Properties of the composite picker\<close>

subsection \<open>The initial date\<close>

lemma split_nonempty: "split sep s \<noteq> []"
  by (induction s) (auto split: list.splits)

lemma split_length: "length (split sep s) = Suc (count_list s sep)"
proof (induction s)
  case Nil
  then show ?case by simp
next
  case (Cons c cs)
  then show ?case using split_nonempty [of sep cs] by (auto split: list.splits)
qed

text \<open>
  A string with at least two dashes never raises: the three setters are applied to
  today's date and the result is kept if the library calls it valid, today's date
  otherwise. So does the absent and the empty string, which give today's date.
\<close>

lemma resolveInitial_three_parts:
  assumes "s \<noteq> []" and "2 \<le> count_list s (CHR ''-'')"
  shows "\<exists>y m d. resolveInitial Number cal (Some s) =
     Inr (if isValid cal
               (set_date cal d (set_month cal (minus_one m) (set_year cal y (now_jalali cal))))
          then set_date cal d (set_month cal (minus_one m) (set_year cal y (now_jalali cal)))
          else now_jalali cal)"
proof -
  let ?parts = "map Number (split (CHR ''-'') s)"
  have len: "length ?parts = Suc (count_list s (CHR ''-''))" by (simp add: split_length)
  with assms(2) have e: "element ?parts 0 = Some (?parts ! 0)"
    "element ?parts (Suc 0) = Some (?parts ! 1)" "element ?parts 2 = Some (?parts ! 2)"
    by (simp_all add: element_def)
  have "resolveInitial Number cal (Some s) =
     Inr (if isValid cal
               (set_date cal (?parts ! 2)
                  (set_month cal (minus_one (?parts ! 1))
                     (set_year cal (?parts ! 0) (now_jalali cal))))
          then set_date cal (?parts ! 2)
                 (set_month cal (minus_one (?parts ! 1))
                    (set_year cal (?parts ! 0) (now_jalali cal)))
          else now_jalali cal)"
    using assms(1)
    by (simp add: resolveInitial_def Let_def e invoke_def accessor_def del: split.simps)
  then show ?thesis by blast
qed

lemma resolveInitial_absent:
  "resolveInitial Number cal None = Inr (now_jalali cal)
   \<and> resolveInitial Number cal (Some []) = Inr (now_jalali cal)"
  by (simp add: resolveInitial_def)

text \<open>
  A non-empty string with fewer than two dashes raises: \<open>d\<close> is undefined, \<open>.date(d)\<close>
  returns a number, and \<open>parsed.isValid()\<close> is a call on that number.
\<close>

lemma resolveInitial_fewer_parts:
  assumes "s \<noteq> []" and "count_list s (CHR ''-'') < 2"
  shows "resolveInitial Number cal (Some s) = Inl TypeError"
proof -
  let ?parts = "map Number (split (CHR ''-'') s)"
  have len: "length ?parts = Suc (count_list s (CHR ''-''))" by (simp add: split_length)
  with assms(2) have d: "element ?parts 2 = None" by (simp add: element_def)
  from len have y: "element ?parts 0 = Some (?parts ! 0)" by (simp add: element_def)
  show ?thesis
    using assms(1)
    by (simp add: resolveInitial_def Let_def d y invoke_def accessor_def del: split.simps)
qed

text \<open>
  Claim C2 fails on the code: whatever \<open>Number\<close> and the calendar library do, the
  initial date \<open>1400-05\<close> (a year and a month) raises a \<open>TypeError\<close> instead of giving
  today's date, and so does a date written with slashes.
\<close>

theorem initial_date_without_day_raises:
  "resolveInitial Number cal (Some ''1400-05'') = Inl TypeError
   \<and> resolveInitial Number cal (Some ''1379/10/05'') = Inl TypeError"
  by (simp add: resolveInitial_fewer_parts)

subsection \<open>What a render and the passing of time do\<close>

lemma emitChange_date [simp]:
  "year (emitChange p) = year p" "month (emitChange p) = month p" "day (emitChange p) = day p"
  "now (emitChange p) = now p" "rendered (emitChange p) = rendered p"
  "notified (emitChange p) = notified p"
  by (simp_all add: emitChange_def debounced_def Let_def split: option.splits)

lemma emitChange_armed: "tidy p \<Longrightarrow> armed (emitChange p)"
  by (auto simp: tidy_def armed_def emitChange_def debounced_def Let_def clearHandle_def
      split: option.splits)

lemma armed_tidy: "armed p \<Longrightarrow> tidy p"
  by (auto simp: armed_def tidy_def)

lemma tidy_cong:
  "pendingTimeouts q = pendingTimeouts p \<Longrightarrow> timerRef q = timerRef p \<Longrightarrow> now q = now p \<Longrightarrow>
   tidy p \<Longrightarrow> tidy q"
  by (simp add: tidy_def)

lemma commit_unfold_settled:
  "\<not> day p > daysInMonthOf lib (year p) (month p - 1) \<Longrightarrow>
   commit lib p = emitChange (p\<lparr>rendered := rendered p @ [(year p, month p, day p)]\<rparr>)"
  using commit.simps [of lib p] by (simp add: Let_def)

lemma commit_unfold_overflow:
  "day p > daysInMonthOf lib (year p) (month p - 1) \<Longrightarrow>
   commit lib p =
     commit lib ((emitChange (p\<lparr>rendered := rendered p @ [(year p, month p, day p)]\<rparr>))
                   \<lparr>day := daysInMonthOf lib (year p) (month p - 1)\<rparr>)"
  using commit.simps [of lib p] by (simp add: Let_def)

lemma commit_date:
  "year (commit lib p) = year p \<and> month (commit lib p) = month p
   \<and> day (commit lib p) = min (day p) (daysInMonthOf lib (year p) (month p - 1))
   \<and> now (commit lib p) = now p \<and> notified (commit lib p) = notified p
   \<and> rendered (commit lib p) = rendered p @
        (if day p > daysInMonthOf lib (year p) (month p - 1)
         then [(year p, month p, day p),
               (year p, month p, daysInMonthOf lib (year p) (month p - 1))]
         else [(year p, month p, day p)])"
proof (cases "day p > daysInMonthOf lib (year p) (month p - 1)")
  case False
  then show ?thesis by (simp add: commit_unfold_settled)
next
  case True
  let ?d = "daysInMonthOf lib (year p) (month p - 1)"
  let ?p3 = "(emitChange (p\<lparr>rendered := rendered p @ [(year p, month p, day p)]\<rparr>))\<lparr>day := ?d\<rparr>"
  have c1: "commit lib p = commit lib ?p3" by (rule commit_unfold_overflow [OF True])
  have ok: "\<not> day ?p3 > daysInMonthOf lib (year ?p3) (month ?p3 - 1)" by simp
  have c2: "commit lib ?p3 =
      emitChange (?p3\<lparr>rendered := rendered ?p3 @ [(year ?p3, month ?p3, day ?p3)]\<rparr>)"
    by (rule commit_unfold_settled [OF ok])
  show ?thesis using True by (simp add: c1 c2)
qed

lemma commit_armed: "tidy p \<Longrightarrow> armed (commit lib p)"
proof (cases "day p > daysInMonthOf lib (year p) (month p - 1)")
  case False
  assume t: "tidy p"
  have "tidy (p\<lparr>rendered := rendered p @ [(year p, month p, day p)]\<rparr>)"
    by (rule tidy_cong [OF _ _ _ t]) simp_all
  then show ?thesis by (simp add: commit_unfold_settled [OF False] emitChange_armed)
next
  case True
  assume t: "tidy p"
  let ?d = "daysInMonthOf lib (year p) (month p - 1)"
  let ?p2 = "emitChange (p\<lparr>rendered := rendered p @ [(year p, month p, day p)]\<rparr>)"
  let ?p3 = "?p2\<lparr>day := ?d\<rparr>"
  have t1: "tidy (p\<lparr>rendered := rendered p @ [(year p, month p, day p)]\<rparr>)"
    by (rule tidy_cong [OF _ _ _ t]) simp_all
  have "tidy ?p2" by (rule armed_tidy [OF emitChange_armed [OF t1]])
  then have t3: "tidy ?p3" by (rule tidy_cong [rotated 3]) simp_all
  have c1: "commit lib p = commit lib ?p3" by (rule commit_unfold_overflow [OF True])
  have ok: "\<not> day ?p3 > daysInMonthOf lib (year ?p3) (month ?p3 - 1)" by simp
  have c2: "commit lib ?p3 =
      emitChange (?p3\<lparr>rendered := rendered ?p3 @ [(year ?p3, month ?p3, day ?p3)]\<rparr>)"
    by (rule commit_unfold_settled [OF ok])
  have "tidy (?p3\<lparr>rendered := rendered ?p3 @ [(year ?p3, month ?p3, day ?p3)]\<rparr>)"
    by (rule tidy_cong [OF _ _ _ t3]) simp_all
  then show ?thesis unfolding c1 c2 by (rule emitChange_armed)
qed

lemma fold_runTimeout_date:
  "year (fold (runTimeout lib oc) ts q) = year q
   \<and> month (fold (runTimeout lib oc) ts q) = month q
   \<and> day (fold (runTimeout lib oc) ts q) = day q
   \<and> rendered (fold (runTimeout lib oc) ts q) = rendered q
   \<and> now (fold (runTimeout lib oc) ts q) = now q
   \<and> timerRef (fold (runTimeout lib oc) ts q) = timerRef q
   \<and> pendingTimeouts (fold (runTimeout lib oc) ts q) = pendingTimeouts q"
  by (induction ts arbitrary: q) (auto simp: runTimeout_def split: prod.splits)

lemma elapse_date [simp]:
  "year (elapse lib oc dt p) = year p" "month (elapse lib oc dt p) = month p"
  "day (elapse lib oc dt p) = day p" "rendered (elapse lib oc dt p) = rendered p"
  "now (elapse lib oc dt p) = now p + dt" "timerRef (elapse lib oc dt p) = timerRef p"
  by (simp_all add: elapse_def Let_def fold_runTimeout_date)

lemma elapse_pending:
  "pendingTimeouts (elapse lib oc dt p) =
     filter (\<lambda>e. \<not> fst (snd e) \<le> now p + dt) (pendingTimeouts p)"
  by (simp add: elapse_def Let_def fold_runTimeout_date)

lemma elapse_tidy:
  assumes "tidy p"
  shows "tidy (elapse lib oc dt p)"
proof (cases "pendingTimeouts p = []")
  case True
  then show ?thesis by (simp add: tidy_def elapse_pending)
next
  case False
  with assms obtain h due c where one: "h \<noteq> 0" "timerRef p = Some h" "now p < due"
    "pendingTimeouts p = [(h, due, c)]"
    by (auto simp: tidy_def)
  show ?thesis
  proof (cases "due \<le> now p + dt")
    case True
    with one show ?thesis by (simp add: tidy_def elapse_pending)
  next
    case False
    with one show ?thesis by (cases c) (simp add: tidy_def elapse_pending)
  qed
qed

lemma elapse_tidy_now:
  "tidy p \<Longrightarrow>
   pendingTimeouts (elapse lib oc 0 p) = pendingTimeouts p
   \<and> notified (elapse lib oc 0 p) = notified p"
  by (auto simp: tidy_def elapse_def Let_def)

lemma elapse_armed_early:
  "armed p \<Longrightarrow> dt < 150 \<Longrightarrow>
   pendingTimeouts (elapse lib oc dt p) = pendingTimeouts p
   \<and> notified (elapse lib oc dt p) = notified p"
  by (auto simp: armed_def elapse_def Let_def)

lemma elapse_armed_late:
  "armed p \<Longrightarrow> 150 \<le> dt \<Longrightarrow>
   pendingTimeouts (elapse lib True dt p) = []
   \<and> notified (elapse lib True dt p) =
       notified p @ [(now p + 150, changeValue lib (year p, month p, day p))]"
  by (auto simp: armed_def elapse_def Let_def runTimeout_def)

lemma setState_timers [simp]:
  "pendingTimeouts (setState s p) = pendingTimeouts p" "timerRef (setState s p) = timerRef p"
  "now (setState s p) = now p" "notified (setState s p) = notified p"
  "rendered (setState s p) = rendered p"
  by (cases s; simp)+

lemma dispatch_armed:
  assumes "tidy p" and "changes s p"
  shows "armed (dispatch lib s p) \<and> notified (dispatch lib s p) = notified p
         \<and> now (dispatch lib s p) = now p"
proof -
  have "tidy (setState s p)" by (rule tidy_cong [OF _ _ _ assms(1)]) simp_all
  then have "armed (commit lib (setState s p))" by (rule commit_armed)
  with assms(2) show ?thesis by (simp add: dispatch_def commit_date)
qed

lemma dispatch_tidy: "tidy p \<Longrightarrow> tidy (dispatch lib s p)"
  using dispatch_armed [of p s lib] armed_tidy by (cases "changes s p") (auto simp: dispatch_def)

lemma mount_armed: "armed (mount lib minYear maxYear initial t0)"
  unfolding mount_def by (rule commit_armed) (simp add: tidy_def)

lemma run_picker_tidy: "tidy p \<Longrightarrow> tidy (run_picker lib oc evs p)"
proof (induction evs arbitrary: p)
  case Nil
  then show ?case by simp
next
  case (Cons e es)
  show ?case
  proof (cases e)
    case (Publish s)
    with Cons.IH [OF dispatch_tidy [OF Cons.prems, of lib s]] show ?thesis by simp
  next
    case (Elapse dt)
    with Cons.IH [OF elapse_tidy [OF Cons.prems, of lib oc dt]] show ?thesis by simp
  next
    case Rerender
    with Cons.IH [OF armed_tidy [OF commit_armed [OF Cons.prems, of lib]]]
    show ?thesis by simp
  qed
qed

lemma reachable_tidy:
  "tidy (run_picker lib oc evs (mount lib minYear maxYear initial t0))"
  by (rule run_picker_tidy [OF armed_tidy [OF mount_armed]])


subsection \<open>Every render arms a notification\<close>

text \<open>
  Whatever made the picker render, a changed state or not, the render leaves one
  notification pending, of the state it ends in, due 150 ms later; when that time has
  passed with nothing else happening, it is delivered.
\<close>

lemma render_then_quiet_notifies:
  assumes "tidy p"
  shows "notified (elapse lib True dt (commit lib p)) =
     (if dt < 150 then notified p
      else notified p @
        [(now p + 150,
          changeValue lib
            (year p, month p, min (day p) (daysInMonthOf lib (year p) (month p - 1))))])"
proof -
  have a: "armed (commit lib p)" by (rule commit_armed [OF assms])
  show ?thesis
  proof (cases "dt < 150")
    case True
    then show ?thesis using elapse_armed_early [OF a True, of lib True]
      by (simp add: commit_date)
  next
    case False
    then have "150 \<le> dt" by simp
    from elapse_armed_late [OF a this, of lib] False show ?thesis
      by (simp add: commit_date)
  qed
qed

lemma mount_left_alone_notifies_once:
  "notified (elapse lib True dt (mount lib minYear maxYear initial t0)) =
     (if dt < 150 then []
      else [(t0 + 150,
             changeValue lib
               (clamp (jy initial) minYear maxYear, jM initial + 1,
                min (jD initial)
                  (daysInMonthOf lib (clamp (jy initial) minYear maxYear) (jM initial))))])"
  unfolding mount_def
  by (subst render_then_quiet_notifies) (simp_all add: tidy_def)

text \<open>
  Claim C10 fails on the code. The source's comment on \<open>useDebouncedCallback\<close> promises a
  stable function identity, and the effect names \<open>year\<close>, \<open>month\<close>, \<open>day\<close> and
  \<open>emitChange\<close> as what it depends on; but \<open>useCallback\<close> is given \<open>[cb, delay]\<close> with a
  \<open>cb\<close> that is new on every render, so the effect runs after every render.
  The picker of the demo page is mounted with an \<open>onChange\<close> prop; 150 ms later it
  notifies, as the claim says. Its parent renders it again (as a parent does that keeps
  the notified value in its state): nothing has been scrolled and no value has changed,
  and 150 ms later the picker notifies a second time.
\<close>

theorem rerender_after_mount_notifies_again:
  "notified (run_picker example_lib True [Elapse 150] (mount example_lib 1300 1404 dey_5 0))
     = [(150, \<lparr>jalali = ''1379-10-05'', gregorian = ''2000-12-25''\<rparr>)]
   \<and> notified (run_picker example_lib True [Elapse 150, Rerender, Elapse 150]
        (mount example_lib 1300 1404 dey_5 0))
     = [(150, \<lparr>jalali = ''1379-10-05'', gregorian = ''2000-12-25''\<rparr>),
        (300, \<lparr>jalali = ''1379-10-05'', gregorian = ''2000-12-25''\<rparr>)]"
  by code_simp

text \<open>
  Claim C6 fails on the code, by the same defect. The same picker, just mounted; the day
  is changed to 6 at once and to 7 after 100 ms, the last change. In the first run the
  picker is rendered again 100 ms after the last change: 249 ms after the last change
  nothing has been notified yet. In the second run the notification comes 150 ms after
  the last change, the picker is rendered again, and the same state is notified once
  more.
\<close>

theorem rerender_moves_and_repeats_notification:
  "notified (run_picker example_lib True
       [Publish (SetDay 6), Elapse 100, Publish (SetDay 7), Elapse 100, Rerender, Elapse 149]
       (mount example_lib 1300 1404 dey_5 0))
     = []
   \<and> notified (run_picker example_lib True
       [Publish (SetDay 6), Elapse 100, Publish (SetDay 7), Elapse 150, Rerender, Elapse 150]
       (mount example_lib 1300 1404 dey_5 0))
     = [(250, \<lparr>jalali = ''1379-10-07'', gregorian = ''2000-12-27''\<rparr>),
        (400, \<lparr>jalali = ''1379-10-07'', gregorian = ''2000-12-27''\<rparr>)]"
  by code_simp

subsection \<open>The day and the length of the month\<close>




















end
